theory Spec2Isabelle
  imports Complex_Main "HOL-Library.Word"
begin

section \<open>LB particle coupling: data model\<close>

text \<open>
  A shallow embedding of \<^verbatim>\<open>lb_particle_coupling.cpp\<close>. A \<^verbatim>\<open>double\<close> is modelled as a
  \<^typ>\<open>real\<close>. The functions are first written in exact arithmetic, which is enough for
  the statements about positions, counts, branches and errors; the functions on whose
  computed values a statement depends are written a second time with every operation
  rounded to double (section "Double arithmetic").
  The global variables the functions read (\<^verbatim>\<open>lb_particle_coupling\<close>, \<^verbatim>\<open>lattice_switch\<close>,
  \<^verbatim>\<open>local_geo\<close>, \<^verbatim>\<open>box_geo\<close>, \<^verbatim>\<open>cell_structure\<close>) and the getters of the LB fluid are the
  fields of one record that every function takes as its first argument.
\<close>

subsection \<open>Utils::Vector3d\<close>

text \<open>
  Modelled from the spec: \<^verbatim>\<open>Utils::Vector3d\<close> (\<^verbatim>\<open>utils/Vector.hpp\<close> is not among the
  sources), a vector of three doubles whose sum, difference, negation, product with a
  scalar and comparisons work "component-wise".
\<close>

datatype Vector3d = Vec (vx: real) (vy: real) (vz: real)

instantiation Vector3d :: "{zero, plus, minus, uminus}"
begin

definition zero_Vector3d :: Vector3d where
  "zero_Vector3d = Vec 0 0 0"

definition plus_Vector3d :: "Vector3d \<Rightarrow> Vector3d \<Rightarrow> Vector3d" where
  "plus_Vector3d a b = Vec (vx a + vx b) (vy a + vy b) (vz a + vz b)"

definition minus_Vector3d :: "Vector3d \<Rightarrow> Vector3d \<Rightarrow> Vector3d" where
  "minus_Vector3d a b = Vec (vx a - vx b) (vy a - vy b) (vz a - vz b)"

definition uminus_Vector3d :: "Vector3d \<Rightarrow> Vector3d" where
  "uminus_Vector3d a = Vec (- vx a) (- vy a) (- vz a)"

instance ..

end

text \<open>\<^verbatim>\<open>Vector3d::broadcast(h)\<close>: the vector with all three components \<open>h\<close>.\<close>

definition broadcast :: "real \<Rightarrow> Vector3d" where
  "broadcast h = Vec h h h"

text \<open>\<^verbatim>\<open>c * v\<close>, a scalar times a vector.\<close>

definition scale :: "real \<Rightarrow> Vector3d \<Rightarrow> Vector3d" where
  "scale c a = Vec (c * vx a) (c * vy a) (c * vz a)"

text \<open>\<^verbatim>\<open>Utils::hadamard_product\<close>: the component-wise product.\<close>

definition hadamard_product :: "Vector3d \<Rightarrow> Vector3d \<Rightarrow> Vector3d" where
  "hadamard_product a b = Vec (vx a * vx b) (vy a * vy b) (vz a * vz b)"

text \<open>
  Modelled from the spec: the operators \<^verbatim>\<open>>=\<close> and \<^verbatim>\<open><\<close> of \<^verbatim>\<open>Utils::Vector\<close>, under
  which a position "lies in \<open>[lower - halo, upper + halo)\<close> component-wise": each holds
  when it holds for every component (so they are no order: \<^verbatim>\<open>a < b\<close> and \<^verbatim>\<open>a >= b\<close> can
  both be false).
\<close>

definition vec_ge :: "Vector3d \<Rightarrow> Vector3d \<Rightarrow> bool" where
  "vec_ge a b = (vx a \<ge> vx b \<and> vy a \<ge> vy b \<and> vz a \<ge> vz b)"

definition vec_lt :: "Vector3d \<Rightarrow> Vector3d \<Rightarrow> bool" where
  "vec_lt a b = (vx a < vx b \<and> vy a < vy b \<and> vz a < vz b)"

text \<open>
  An index into a vector. The source indexes with \<^verbatim>\<open>unsigned int\<close>; the only indices it
  uses are the two axes of the Lees-Edwards boundary conditions, which are 0, 1 or 2
  whenever the box is of type \<^verbatim>\<open>LEES_EDWARDS\<close>, so the type has these three values.
\<close>

datatype axis = Axis0 | Axis1 | Axis2

fun vec_nth :: "Vector3d \<Rightarrow> axis \<Rightarrow> real" where
  "vec_nth a Axis0 = vx a"
| "vec_nth a Axis1 = vy a"
| "vec_nth a Axis2 = vz a"

fun vec_upd :: "Vector3d \<Rightarrow> axis \<Rightarrow> real \<Rightarrow> Vector3d" where
  "vec_upd (Vec x y z) Axis0 r = Vec r y z"
| "vec_upd (Vec x y z) Axis1 r = Vec x r z"
| "vec_upd (Vec x y z) Axis2 r = Vec x y r"

subsection \<open>Particles\<close>

record ParticleParametersSwimming =
  swimming :: bool
  f_swim :: real
  v_swim :: real
  push_pull :: int
  dipole_length :: real

text \<open>
  The part of \<^verbatim>\<open>Particle\<close> (\<^verbatim>\<open>Particle.hpp\<close>) that the coupling reads and writes, one
  field for each accessor the source calls; \<open>p_director\<close> is what \<^verbatim>\<open>p.calc_director()\<close>
  returns and \<open>p_swimming\<close> what \<^verbatim>\<open>p.swimming()\<close> returns.
\<close>

record Particle =
  p_id :: int
  p_pos :: Vector3d
  p_v :: Vector3d
  p_force :: Vector3d
  p_is_virtual :: bool
  p_is_ghost :: bool
  p_swimming :: ParticleParametersSwimming
  p_director :: Vector3d
  p_mu_E :: Vector3d

subsection \<open>Global state\<close>

text \<open>
  The values of \<^verbatim>\<open>lattice_switch\<close> and of \<^verbatim>\<open>box_geo.type()\<close> that the source names, and
  the members of the box geometry, of the Lees-Edwards parameters and of the local box
  that it reads (their declarations are in headers that are not among the sources).
\<close>

datatype ActiveLB = NONE | WALBERLA_LB

datatype BoxType = CUBOID | LEES_EDWARDS

record LeesEdwardsBC =
  pos_offset :: real
  shear_direction :: axis
  shear_plane_normal :: axis

record BoxGeometry =
  box_type :: BoxType
  box_length :: Vector3d
  lees_edwards_bc :: LeesEdwardsBC

record LocalBox =
  my_left :: Vector3d
  my_right :: Vector3d

text \<open>
  Modelled from the spec: \<^verbatim>\<open>Utils::Counter<uint64_t>\<close> (\<^verbatim>\<open>utils/Counter.hpp\<close> is not among
  the sources), "a monotonically increasing 64-bit value, incremented exactly once per
  coupling step": a 64-bit word, \<open>counter_value\<close> reads it and \<open>increment\<close> adds one
  (unsigned arithmetic, so the largest value wraps to 0).
\<close>

type_synonym Counter = "64 word"

definition counter_value :: "Counter \<Rightarrow> 64 word" where
  "counter_value c = c"

definition increment :: "Counter \<Rightarrow> Counter" where
  "increment c = c + 1"

text \<open>
  \<^verbatim>\<open>LB::ParticleCouplingConfig\<close>; the counter is a \<^verbatim>\<open>boost::optional\<close>, \<open>None\<close> until
  \<^verbatim>\<open>lb_lbcoupling_set_rng_state\<close> is called.
\<close>

record ParticleCouplingConfig =
  rng_counter_coupling :: "Counter option"
  gamma :: real
  couple_to_md :: bool

text \<open>
  The globals, the getters of the fluid (\<^verbatim>\<open>LB::get_kT\<close>, \<^verbatim>\<open>LB::get_agrid\<close>,
  \<^verbatim>\<open>LB::get_lattice_speed\<close>, \<^verbatim>\<open>lb_lbinterpolation_get_interpolated_velocity\<close>), the noise
  function \<^verbatim>\<open>Random::noise_uniform<RNGSalt::PARTICLES>\<close> (counter, seed, key), the lookup
  \<^verbatim>\<open>cell_structure.get_local_particle\<close> (\<open>None\<close> for the null pointer), and the two
  compile-time features \<^verbatim>\<open>ENGINE\<close> and \<^verbatim>\<open>LB_ELECTROHYDRODYNAMICS\<close>.
\<close>

record globals =
  lb_particle_coupling :: ParticleCouplingConfig
  lattice_switch :: ActiveLB
  local_geo :: LocalBox
  box_geo :: BoxGeometry
  get_kT :: real
  get_agrid :: real
  get_lattice_speed :: real
  get_interpolated_velocity :: "Vector3d \<Rightarrow> Vector3d"
  noise_uniform :: "64 word \<Rightarrow> int \<Rightarrow> int \<Rightarrow> Vector3d"
  get_local_particle :: "int \<Rightarrow> Particle option"
  ENGINE :: bool
  LB_ELECTROHYDRODYNAMICS :: bool

section \<open>Lattice domain geometry\<close>

definition in_local_domain :: "globals \<Rightarrow> Vector3d \<Rightarrow> real \<Rightarrow> bool" where
  "in_local_domain g pos halo =
     (let halo_vec = broadcast halo;
          lower_corner = my_left (local_geo g) - halo_vec;
          upper_corner = my_right (local_geo g) + halo_vec
      in vec_ge pos lower_corner \<and> vec_lt pos upper_corner)"

definition in_local_halo :: "globals \<Rightarrow> Vector3d \<Rightarrow> bool" where
  "in_local_halo g pos =
     (let halo = 0.5 * get_agrid g
      in in_local_domain g pos halo)"

section \<open>Errors\<close>

text \<open>
  The two \<^verbatim>\<open>std::runtime_error\<close>s the file throws ("No LB active" and "Access to
  uninitialized LB particle coupling RNG counter"), and the two accesses it makes without
  a check: \<^verbatim>\<open>operator->\<close> on an empty \<^verbatim>\<open>boost::optional\<close> and on the null pointer that
  \<^verbatim>\<open>get_local_particle\<close> returns for an unknown id. The last two are no exceptions (an
  assertion failure or undefined behaviour); the model gives each a value of its own.
\<close>

datatype error =
    No_LB_active
  | Uninitialized_RNG_counter
  | Empty_optional_access
  | Null_pointer_access

section \<open>Coupling configuration and RNG state\<close>

definition lb_lbcoupling_get_gamma :: "globals \<Rightarrow> real" where
  "lb_lbcoupling_get_gamma g = gamma (lb_particle_coupling g)"

definition lb_lbcoupling_is_seed_required :: "globals \<Rightarrow> bool" where
  "lb_lbcoupling_is_seed_required g =
     (if lattice_switch g = WALBERLA_LB
      then rng_counter_coupling (lb_particle_coupling g) = None
      else False)"

definition lb_coupling_get_rng_state_cpu :: "globals \<Rightarrow> error + 64 word" where
  "lb_coupling_get_rng_state_cpu g =
     (case rng_counter_coupling (lb_particle_coupling g) of
        None \<Rightarrow> Inl Empty_optional_access
      | Some c \<Rightarrow> Inr (counter_value c))"

definition lb_lbcoupling_get_rng_state :: "globals \<Rightarrow> error + 64 word" where
  "lb_lbcoupling_get_rng_state g =
     (if lattice_switch g = WALBERLA_LB then lb_coupling_get_rng_state_cpu g
      else Inl No_LB_active)"

definition lb_lbcoupling_set_rng_state :: "globals \<Rightarrow> 64 word \<Rightarrow> error + globals" where
  "lb_lbcoupling_set_rng_state g counter =
     (if lattice_switch g = WALBERLA_LB
      then Inr (g\<lparr>lb_particle_coupling :=
                  (lb_particle_coupling g)\<lparr>rng_counter_coupling := Some counter\<rparr>\<rparr>)
      else Inl No_LB_active)"

definition lb_lbcoupling_propagate :: "globals \<Rightarrow> error + globals" where
  "lb_lbcoupling_propagate g =
     (if lattice_switch g \<noteq> NONE then
        if get_kT g > 0 then
          if lattice_switch g = WALBERLA_LB then
            (case rng_counter_coupling (lb_particle_coupling g) of
               None \<Rightarrow> Inl Empty_optional_access
             | Some c \<Rightarrow>
                 Inr (g\<lparr>lb_particle_coupling :=
                        (lb_particle_coupling g)\<lparr>rng_counter_coupling := Some (increment c)\<rparr>\<rparr>))
          else Inr g
        else Inr g
      else Inr g)"

section \<open>Forces\<close>

text \<open>
  The fluid's force-density field is written only through
  \<^verbatim>\<open>lb_lbinterpolation_add_force_density\<close>, which belongs to the fluid. The model keeps
  the sequence of these calls, each with its position and its momentum transfer.
\<close>

type_synonym fluid = "(Vector3d \<times> Vector3d) list"

definition lb_lbinterpolation_add_force_density :: "Vector3d \<Rightarrow> Vector3d \<Rightarrow> fluid \<Rightarrow> fluid" where
  "lb_lbinterpolation_add_force_density pos delta_j fl = fl @ [(pos, delta_j)]"

definition add_md_force :: "globals \<Rightarrow> Vector3d \<Rightarrow> Vector3d \<Rightarrow> real \<Rightarrow> fluid \<Rightarrow> fluid" where
  "add_md_force g pos force time_step fl =
     (let delta_j = scale (- (time_step / get_lattice_speed g)) force
      in lb_lbinterpolation_add_force_density pos delta_j fl)"

text \<open>
  The momentum transfers that \<^verbatim>\<open>add_md_force\<close> hands to the fluid when it is called with
  one force at each position of a list, in the order of the list.
\<close>

definition md_force_deposits ::
  "globals \<Rightarrow> Vector3d \<Rightarrow> real \<Rightarrow> Vector3d list \<Rightarrow> (Vector3d \<times> Vector3d) list" where
  "md_force_deposits g force time_step ps =
     map (\<lambda>pos. (pos, scale (- (time_step / get_lattice_speed g)) force)) ps"

definition lb_particle_coupling_drift_vel_offset :: "globals \<Rightarrow> Particle \<Rightarrow> Vector3d" where
  "lb_particle_coupling_drift_vel_offset g p =
     (let vel_offset = 0;
          vel_offset = (if ENGINE g \<and> swimming (p_swimming p)
                        then vel_offset + scale (v_swim (p_swimming p)) (p_director p)
                        else vel_offset);
          vel_offset = (if LB_ELECTROHYDRODYNAMICS g then vel_offset + p_mu_E p
                        else vel_offset)
      in vel_offset)"

text \<open>
  The drag force in exact arithmetic; the kernel uses it, and what is proved of the kernel
  does not depend on its value. Its value in double arithmetic is that of
  \<open>lb_drag_force_rounded\<close> below.
\<close>

definition lb_drag_force :: "globals \<Rightarrow> Particle \<Rightarrow> Vector3d \<Rightarrow> Vector3d \<Rightarrow> Vector3d" where
  "lb_drag_force g p shifted_pos vel_offset =
     (let interpolated_u =
            scale (get_lattice_speed g) (get_interpolated_velocity g shifted_pos);
          v_drift = interpolated_u + vel_offset
      in scale (- lb_lbcoupling_get_gamma g) (p_v p - v_drift))"

section \<open>Periodic images\<close>

text \<open>\<^verbatim>\<open>std::numeric_limits<double>::epsilon()\<close>.\<close>

definition epsilon :: real where
  "epsilon = 1 / 2 ^ 52"

text \<open>
  The body of the innermost loop of \<^verbatim>\<open>positions_in_halo\<close>, up to the halo test: the
  position \<^verbatim>\<open>pos_shifted\<close> for the loop variables \<open>i\<close>, \<open>j\<close>, \<open>k\<close>. The shift uses the
  lengths of the argument \<open>box\<close>; the Lees-Edwards test and data are read from the global
  \<^verbatim>\<open>box_geo\<close>, as in the source (every caller passes \<^verbatim>\<open>box_geo\<close>). Here the arithmetic
  is exact; \<open>pos_shifted_at_rounded\<close> below is the same body in double arithmetic.
\<close>

definition pos_shifted_at ::
  "globals \<Rightarrow> Vector3d \<Rightarrow> BoxGeometry \<Rightarrow> int \<Rightarrow> int \<Rightarrow> int \<Rightarrow> Vector3d" where
  "pos_shifted_at g pos box i j k =
     (let shift = Vec (real_of_int i) (real_of_int j) (real_of_int k);
          pos_shifted = pos + hadamard_product (box_length box) shift
      in if box_type (box_geo g) = LEES_EDWARDS then
           (let le = lees_edwards_bc (box_geo g);
                normal_shift = vec_nth (pos_shifted - pos) (shear_plane_normal le);
                pos_shifted =
                  (if normal_shift > epsilon
                   then vec_upd pos_shifted (shear_direction le)
                          (vec_nth pos_shifted (shear_direction le) + pos_offset le)
                   else pos_shifted);
                pos_shifted =
                  (if normal_shift < - epsilon
                   then vec_upd pos_shifted (shear_direction le)
                          (vec_nth pos_shifted (shear_direction le) - pos_offset le)
                   else pos_shifted)
            in pos_shifted)
         else pos_shifted)"

text \<open>The three nested loops, each over \<^verbatim>\<open>{-1, 0, 1}\<close>, and the \<^verbatim>\<open>push_back\<close>.\<close>

definition positions_in_halo :: "globals \<Rightarrow> Vector3d \<Rightarrow> BoxGeometry \<Rightarrow> Vector3d list" where
  "positions_in_halo g pos box =
     concat (map (\<lambda>i. concat (map (\<lambda>j. concat (map (\<lambda>k.
       (let pos_shifted = pos_shifted_at g pos box i j k
        in if in_local_halo g pos_shifted then [pos_shifted] else []))
       [-1, 0, 1])) [-1, 0, 1])) [-1, 0, 1])"

text \<open>
  The 27 shifts in the order the claim gives them: \<open>x\<close> outermost, \<open>z\<close> innermost, each
  running through -1, 0, +1.
\<close>

definition shifts27 :: "(int \<times> int \<times> int) list" where
  "shifts27 =
     [(-1, -1, -1), (-1, -1, 0), (-1, -1, 1), (-1, 0, -1), (-1, 0, 0), (-1, 0, 1),
      (-1, 1, -1), (-1, 1, 0), (-1, 1, 1),
      (0, -1, -1), (0, -1, 0), (0, -1, 1), (0, 0, -1), (0, 0, 0), (0, 0, 1),
      (0, 1, -1), (0, 1, 0), (0, 1, 1),
      (1, -1, -1), (1, -1, 0), (1, -1, 1), (1, 0, -1), (1, 0, 0), (1, 0, 1),
      (1, 1, -1), (1, 1, 0), (1, 1, 1)]"

text \<open>
  The candidate of one shift as the specification words it: the position moved by the
  shift times the box lengths and, in a Lees-Edwards box, the shear-direction coordinate
  moved by the position offset times the sign of the shift along the shear-plane normal
  (so whenever that shift is not zero).
\<close>

definition spec_image :: "globals \<Rightarrow> BoxGeometry \<Rightarrow> Vector3d \<Rightarrow> int \<times> int \<times> int \<Rightarrow> Vector3d" where
  "spec_image g box pos s =
     (case s of (i, j, k) \<Rightarrow>
        (let d = hadamard_product (box_length box) (Vec (real_of_int i) (real_of_int j) (real_of_int k));
             q = pos + d;
             le = lees_edwards_bc (box_geo g)
         in if box_type (box_geo g) = LEES_EDWARDS
            then vec_upd q (shear_direction le)
                   (vec_nth q (shear_direction le)
                      + sgn (vec_nth d (shear_plane_normal le)) * pos_offset le)
            else q))"

text \<open>
  The same candidate with the threshold of the source: the coordinate moves only when the
  shift along the normal is larger than \<open>epsilon\<close> in absolute value.
\<close>

definition threshold_image :: "globals \<Rightarrow> BoxGeometry \<Rightarrow> Vector3d \<Rightarrow> int \<times> int \<times> int \<Rightarrow> Vector3d" where
  "threshold_image g box pos s =
     (case s of (i, j, k) \<Rightarrow>
        (let d = hadamard_product (box_length box) (Vec (real_of_int i) (real_of_int j) (real_of_int k));
             q = pos + d;
             le = lees_edwards_bc (box_geo g);
             n = vec_nth d (shear_plane_normal le)
         in if box_type (box_geo g) = LEES_EDWARDS \<and> epsilon < \<bar>n\<bar>
            then vec_upd q (shear_direction le)
                   (vec_nth q (shear_direction le) + sgn n * pos_offset le)
            else q))"

section \<open>The coupling kernel\<close>

text \<open>
  \<^verbatim>\<open>LB::ParticleCoupling\<close>: the members that \<^verbatim>\<open>get_noise_term\<close> and \<^verbatim>\<open>kernel\<close> read (the
  class is declared in \<^verbatim>\<open>lb_particle_coupling.hpp\<close>).
\<close>

record ParticleCoupling =
  m_couple_virtual :: bool
  m_thermalized :: bool
  m_time_step :: real
  m_noise :: real

definition get_noise_term :: "globals \<Rightarrow> ParticleCoupling \<Rightarrow> int \<Rightarrow> error + Vector3d" where
  "get_noise_term g pc pid =
     (if \<not> m_thermalized pc then Inr 0
      else
        (case rng_counter_coupling (lb_particle_coupling g) of
           None \<Rightarrow> Inl Uninitialized_RNG_counter
         | Some rng_counter \<Rightarrow>
             (let counter = counter_value rng_counter
              in Inr (scale (m_noise pc) (noise_uniform g counter 0 pid)))))"

text \<open>
  The first loop of \<^verbatim>\<open>kernel\<close>: the force comes from the first position that is in the
  local halo (\<^verbatim>\<open>break\<close>), and is zero when there is none.
\<close>

fun calc_coupling_force ::
  "globals \<Rightarrow> ParticleCoupling \<Rightarrow> Particle \<Rightarrow> Vector3d list \<Rightarrow> error + Vector3d" where
  "calc_coupling_force g pc p [] = Inr 0"
| "calc_coupling_force g pc p (pos # rest) =
     (if in_local_halo g pos then
        (let vel_offset = lb_particle_coupling_drift_vel_offset g p;
             drag_force = lb_drag_force g p pos vel_offset
         in case get_noise_term g pc (p_id p) of
              Inl e \<Rightarrow> Inl e
            | Inr random_force \<Rightarrow> Inr (drag_force + random_force))
      else calc_coupling_force g pc p rest)"

text \<open>
  The second loop of \<^verbatim>\<open>kernel\<close>: the particle's force grows at a position in the local
  domain, the fluid receives the force at every position of the list.
\<close>

fun couple_positions ::
  "globals \<Rightarrow> ParticleCoupling \<Rightarrow> Vector3d \<Rightarrow> Vector3d list \<Rightarrow> Particle \<times> fluid \<Rightarrow> Particle \<times> fluid" where
  "couple_positions g pc coupling_force [] (p, fl) = (p, fl)"
| "couple_positions g pc coupling_force (pos # rest) (p, fl) =
     couple_positions g pc coupling_force rest
       ((if in_local_domain g pos 0 then p\<lparr>p_force := p_force p + coupling_force\<rparr> else p),
        add_md_force g pos coupling_force (m_time_step pc) fl)"

definition add_swimmer_force :: "globals \<Rightarrow> Particle \<Rightarrow> real \<Rightarrow> fluid \<Rightarrow> fluid" where
  "add_swimmer_force g p time_step fl =
     (if swimming (p_swimming p) then
        (let magnitude = dipole_length (p_swimming p);
             direction = real_of_int (push_pull (p_swimming p));
             director = p_director p;
             source_position = p_pos p + scale (direction * magnitude) director;
             force = scale (f_swim (p_swimming p)) director
         in foldl (\<lambda>fl pos. add_md_force g pos force time_step fl) fl
              (positions_in_halo g source_position (box_geo g)))
      else fl)"

definition kernel ::
  "globals \<Rightarrow> ParticleCoupling \<Rightarrow> Particle \<times> fluid \<Rightarrow> error + Particle \<times> fluid" where
  "kernel g pc s =
     (case s of (p, fl) \<Rightarrow>
        if p_is_virtual p \<and> \<not> m_couple_virtual pc then Inr (p, fl)
        else
          (case calc_coupling_force g pc p (positions_in_halo g (p_pos p) (box_geo g)) of
             Inl e \<Rightarrow> Inl e
           | Inr coupling_force \<Rightarrow>
               (case couple_positions g pc coupling_force
                       (positions_in_halo g (p_pos p) (box_geo g)) (p, fl) of
                  (p', fl') \<Rightarrow>
                    Inr (p', if ENGINE g then add_swimmer_force g p' (m_time_step pc) fl'
                             else fl'))))"

section \<open>Coupling bookkeeping\<close>

definition is_ghost_for_local_particle :: "globals \<Rightarrow> Particle \<Rightarrow> error + bool" where
  "is_ghost_for_local_particle g p =
     (case get_local_particle g (p_id p) of
        None \<Rightarrow> Inl Null_pointer_access
      | Some q \<Rightarrow> Inr (\<not> p_is_ghost q))"

section \<open>Double arithmetic\<close>

text \<open>
  Where a statement depends on the value that the machine computes, the exact reals are
  not enough. \<open>round_double\<close> takes a real to the nearest number with a 53-bit
  significand, a tie going to the even significand, as IEEE 754 arithmetic does with the
  exact result of every operation on doubles. The exponent is not bounded: overflow,
  subnormal numbers, infinities and NaN are not modelled. A literal such as \<^verbatim>\<open>0.2\<close> of the
  source is \<open>round_double 0.2\<close>, and a real \<open>x\<close> is a double when \<open>round_double x = x\<close>.
\<close>

definition round_half_even :: "real \<Rightarrow> int" where
  "round_half_even y =
     (let f = \<lfloor>y\<rfloor>
      in if y - of_int f < 1 / 2 then f
         else if 1 / 2 < y - of_int f then f + 1
         else if even f then f else f + 1)"

definition round_double :: "real \<Rightarrow> real" where
  "round_double x =
     (if x = 0 then 0
      else (let e = \<lfloor>log 2 \<bar>x\<bar>\<rfloor> - 52
            in sgn x * (of_int (round_half_even (\<bar>x\<bar> / 2 powr of_int e)) * 2 powr of_int e)))"

text \<open>A rounding function applied to each component, as after an operation on vectors.\<close>

definition vec_round :: "(real \<Rightarrow> real) \<Rightarrow> Vector3d \<Rightarrow> Vector3d" where
  "vec_round rnd a = Vec (rnd (vx a)) (rnd (vy a)) (rnd (vz a))"

text \<open>
  The functions whose statements below depend on computed values, written once more with
  the result of every floating-point operation passed through \<open>rnd\<close>: with the identity
  they are the functions in exact arithmetic (\<open>lb_drag_force\<close>, \<open>in_local_halo\<close>,
  \<open>pos_shifted_at\<close>, \<open>positions_in_halo\<close>), with \<open>round_double\<close> they compute as the
  machine does. Negation, the conversion \<^verbatim>\<open>double(i)\<close> of a small integer and the
  comparisons are exact in double arithmetic.
\<close>

definition lb_drag_force_rounded ::
  "(real \<Rightarrow> real) \<Rightarrow> globals \<Rightarrow> Particle \<Rightarrow> Vector3d \<Rightarrow> Vector3d \<Rightarrow> Vector3d" where
  "lb_drag_force_rounded rnd g p shifted_pos vel_offset =
     (let interpolated_u =
            vec_round rnd (scale (get_lattice_speed g) (get_interpolated_velocity g shifted_pos));
          v_drift = vec_round rnd (interpolated_u + vel_offset)
      in vec_round rnd (scale (- lb_lbcoupling_get_gamma g) (vec_round rnd (p_v p - v_drift))))"

definition in_local_domain_rounded :: "(real \<Rightarrow> real) \<Rightarrow> globals \<Rightarrow> Vector3d \<Rightarrow> real \<Rightarrow> bool" where
  "in_local_domain_rounded rnd g pos halo =
     (let halo_vec = broadcast halo;
          lower_corner = vec_round rnd (my_left (local_geo g) - halo_vec);
          upper_corner = vec_round rnd (my_right (local_geo g) + halo_vec)
      in vec_ge pos lower_corner \<and> vec_lt pos upper_corner)"

definition in_local_halo_rounded :: "(real \<Rightarrow> real) \<Rightarrow> globals \<Rightarrow> Vector3d \<Rightarrow> bool" where
  "in_local_halo_rounded rnd g pos =
     (let halo = rnd (0.5 * get_agrid g)
      in in_local_domain_rounded rnd g pos halo)"

definition pos_shifted_at_rounded ::
  "(real \<Rightarrow> real) \<Rightarrow> globals \<Rightarrow> Vector3d \<Rightarrow> BoxGeometry \<Rightarrow> int \<Rightarrow> int \<Rightarrow> int \<Rightarrow> Vector3d" where
  "pos_shifted_at_rounded rnd g pos box i j k =
     (let shift = Vec (real_of_int i) (real_of_int j) (real_of_int k);
          pos_shifted =
            vec_round rnd (pos + vec_round rnd (hadamard_product (box_length box) shift))
      in if box_type (box_geo g) = LEES_EDWARDS then
           (let le = lees_edwards_bc (box_geo g);
                normal_shift =
                  vec_nth (vec_round rnd (pos_shifted - pos)) (shear_plane_normal le);
                pos_shifted =
                  (if normal_shift > epsilon
                   then vec_upd pos_shifted (shear_direction le)
                          (rnd (vec_nth pos_shifted (shear_direction le) + pos_offset le))
                   else pos_shifted);
                pos_shifted =
                  (if normal_shift < - epsilon
                   then vec_upd pos_shifted (shear_direction le)
                          (rnd (vec_nth pos_shifted (shear_direction le) - pos_offset le))
                   else pos_shifted)
            in pos_shifted)
         else pos_shifted)"

definition positions_in_halo_rounded ::
  "(real \<Rightarrow> real) \<Rightarrow> globals \<Rightarrow> Vector3d \<Rightarrow> BoxGeometry \<Rightarrow> Vector3d list" where
  "positions_in_halo_rounded rnd g pos box =
     concat (map (\<lambda>i. concat (map (\<lambda>j. concat (map (\<lambda>k.
       (let pos_shifted = pos_shifted_at_rounded rnd g pos box i j k
        in if in_local_halo_rounded rnd g pos_shifted then [pos_shifted] else []))
       [-1, 0, 1])) [-1, 0, 1])) [-1, 0, 1])"

text \<open>
  The candidate of one shift as the specification words it, in the arithmetic \<open>rnd\<close>: the
  coordinate along the shear direction moves by the offset, up for a positive and down
  for a negative shift along the normal, and stays for a zero shift.
\<close>

definition spec_image_rounded ::
  "(real \<Rightarrow> real) \<Rightarrow> globals \<Rightarrow> BoxGeometry \<Rightarrow> Vector3d \<Rightarrow> int \<times> int \<times> int \<Rightarrow> Vector3d" where
  "spec_image_rounded rnd g box pos s =
     (case s of (i, j, k) \<Rightarrow>
        (let d = vec_round rnd (hadamard_product (box_length box)
                                  (Vec (real_of_int i) (real_of_int j) (real_of_int k)));
             q = vec_round rnd (pos + d);
             le = lees_edwards_bc (box_geo g);
             n = vec_nth d (shear_plane_normal le)
         in if box_type (box_geo g) = LEES_EDWARDS \<and> 0 < n
            then vec_upd q (shear_direction le) (rnd (vec_nth q (shear_direction le) + pos_offset le))
            else if box_type (box_geo g) = LEES_EDWARDS \<and> n < 0
            then vec_upd q (shear_direction le) (rnd (vec_nth q (shear_direction le) - pos_offset le))
            else q))"

section \<open>A concrete configuration\<close>

text \<open>
  The set-up of the unit test: a cubic box of length 8 owned by one rank, lattice spacing
  1, lattice speed 100 (\<open>agrid / tau\<close> with \<open>tau = 0.01\<close>), a fluid at rest at
  \<open>kT = 1e-4\<close>, friction 0.2, and the RNG counter seeded with 17. The noise function is
  a parameter of the model; here it is a constant vector.
\<close>

definition example_globals :: globals where
  "example_globals =
     \<lparr>lb_particle_coupling = \<lparr>rng_counter_coupling = Some 17, gamma = 1 / 5, couple_to_md = True\<rparr>,
      lattice_switch = WALBERLA_LB,
      local_geo = \<lparr>my_left = Vec 0 0 0, my_right = Vec 8 8 8\<rparr>,
      box_geo = \<lparr>box_type = CUBOID, box_length = Vec 8 8 8,
                 lees_edwards_bc =
                   \<lparr>pos_offset = 0, shear_direction = Axis0, shear_plane_normal = Axis1\<rparr>\<rparr>,
      get_kT = 1 / 10000,
      get_agrid = 1,
      get_lattice_speed = 100,
      get_interpolated_velocity = (\<lambda>pos. Vec 0 0 0),
      noise_uniform = (\<lambda>counter seed key. Vec (1 / 4) (- 1 / 4) 0),
      get_local_particle = (\<lambda>pid. None),
      ENGINE = False,
      LB_ELECTROHYDRODYNAMICS = False\<rparr>"

text \<open>The particle of the drag-force test, placed a quarter of a cell inside the box.\<close>

definition example_particle :: Particle where
  "example_particle =
     \<lparr>p_id = 0, p_pos = Vec (1 / 4) 4 4, p_v = Vec (- 5 / 2) (3 / 2) 2, p_force = Vec 0 0 0,
      p_is_virtual = False, p_is_ghost = False,
      p_swimming = \<lparr>swimming = False, f_swim = 0, v_swim = 0, push_pull = 0, dipole_length = 0\<rparr>,
      p_director = Vec 0 0 1, p_mu_E = Vec 0 0 0\<rparr>"

definition example_coupling :: ParticleCoupling where
  "example_coupling =
     \<lparr>m_couple_virtual = False, m_thermalized = False, m_time_step = 1 / 100, m_noise = 0\<rparr>"

text \<open>
  A sheared box: Lees-Edwards boundary conditions with the shear plane normal to \<open>y\<close>,
  the shear along \<open>x\<close> and a position offset of 1.
\<close>

definition example_le_box :: BoxGeometry where
  "example_le_box =
     \<lparr>box_type = LEES_EDWARDS, box_length = Vec 8 8 8,
      lees_edwards_bc = \<lparr>pos_offset = 1, shear_direction = Axis0, shear_plane_normal = Axis1\<rparr>\<rparr>"

text \<open>The same configuration before \<^verbatim>\<open>lb_lbcoupling_set_rng_state\<close> was ever called.\<close>

definition example_unseeded :: globals where
  "example_unseeded =
     example_globals\<lparr>lb_particle_coupling :=
       (lb_particle_coupling example_globals)\<lparr>rng_counter_coupling := None\<rparr>\<rparr>"

text \<open>
  A rank that sees particle 0 only as a ghost (the periodic copy of the example particle),
  so that the lookup of id 0 returns the ghost.
\<close>

definition example_ghost :: Particle where
  "example_ghost = example_particle\<lparr>p_pos := Vec (33 / 4) 4 4, p_is_ghost := True\<rparr>"

definition example_ghost_only :: globals where
  "example_ghost_only =
     example_globals\<lparr>get_local_particle := (\<lambda>pid. if pid = 0 then Some example_ghost else None)\<rparr>"

text \<open>A rank that owns particle 0 as a real particle: the lookup of id 0 returns it.\<close>

definition example_globals_real :: globals where
  "example_globals_real =
     example_globals\<lparr>get_local_particle := (\<lambda>pid. if pid = 0 then Some example_particle else None)\<rparr>"

text \<open>The unit-test configuration with the friction set by \<^verbatim>\<open>lb_lbcoupling_set_gamma(0.2)\<close>.\<close>

definition example_double_globals :: globals where
  "example_double_globals =
     example_globals\<lparr>lb_particle_coupling :=
       (lb_particle_coupling example_globals)\<lparr>gamma := round_double 0.2\<rparr>\<rparr>"

section \<open>Vector arithmetic\<close>

lemma Vec_plus [simp]: "Vec a b c + Vec d e f = Vec (a + d) (b + e) (c + f)"
  by (simp add: plus_Vector3d_def)

lemma Vec_minus [simp]: "Vec a b c - Vec d e f = Vec (a - d) (b - e) (c - f)"
  by (simp add: minus_Vector3d_def)

lemma Vec_uminus [simp]: "- Vec a b c = Vec (- a) (- b) (- c)"
  by (simp add: uminus_Vector3d_def)

lemma scale_Vec [simp]: "scale r (Vec a b c) = Vec (r * a) (r * b) (r * c)"
  by (simp add: scale_def)

lemma hadamard_Vec [simp]:
  "hadamard_product (Vec a b c) (Vec d e f) = Vec (a * d) (b * e) (c * f)"
  by (simp add: hadamard_product_def)

lemma vec_ge_Vec [simp]: "vec_ge (Vec a b c) (Vec d e f) = (d \<le> a \<and> e \<le> b \<and> f \<le> c)"
  by (simp add: vec_ge_def)

lemma vec_lt_Vec [simp]: "vec_lt (Vec a b c) (Vec d e f) = (a < d \<and> b < e \<and> c < f)"
  by (simp add: vec_lt_def)

lemma vec_add_zero [simp]: "(a :: Vector3d) + 0 = a" "0 + a = a"
  by (cases a; simp add: zero_Vector3d_def)+

lemma scale_zero [simp]: "scale 0 a = 0"
  by (simp add: scale_def zero_Vector3d_def)

lemma vec_add_scale_Suc: "(a + f) + scale (real n) f = a + scale (real (Suc n)) f"
  by (cases a; cases f) (simp add: algebra_simps)

lemma vec_upd_same [simp]: "vec_upd q a (vec_nth q a) = q"
  by (cases q; cases a) simp_all

lemma vec_round_Vec [simp]: "vec_round rnd (Vec a b c) = Vec (rnd a) (rnd b) (rnd c)"
  by (simp add: vec_round_def)

lemma vec_round_id [simp]: "vec_round (\<lambda>x. x) a = a"
  by (cases a) simp

lemma epsilon_pos: "0 < epsilon"
  by (simp add: epsilon_def)

lemmas geo_simps = in_local_halo_def in_local_domain_def broadcast_def Let_def epsilon_def

section \<open>Rounding to double\<close>

lemma round_half_even_error: "\<bar>of_int (round_half_even y) - y\<bar> \<le> 1 / 2"
  unfolding round_half_even_def Let_def by (auto; linarith)

lemma round_double_zero [simp]: "round_double 0 = 0"
  by (simp add: round_double_def)

lemma round_double_minus: "round_double (- x) = - round_double x"
  by (simp add: round_double_def Let_def)

lemma scaled_ge:
  assumes "0 < y"
  shows "2 ^ 52 \<le> y / 2 powr of_int (\<lfloor>log 2 y\<rfloor> - 52)"
proof -
  have "2 powr of_int \<lfloor>log 2 y\<rfloor> \<le> 2 powr log 2 y"
    by (intro powr_mono) auto
  also have "\<dots> = y" using assms by simp
  finally have a: "2 powr of_int \<lfloor>log 2 y\<rfloor> \<le> y" .
  have "(2::real) powr of_int (\<lfloor>log 2 y\<rfloor> - 52) = 2 powr of_int \<lfloor>log 2 y\<rfloor> / 2 ^ 52"
    by (simp add: powr_diff)
  then show ?thesis using a
    by (simp add: field_simps)
qed

lemma round_double_error: "\<bar>round_double x - x\<bar> \<le> \<bar>x\<bar> / 2 ^ 53"
proof (cases "x = 0")
  case True
  then show ?thesis by simp
next
  case False
  define y where "y = \<bar>x\<bar>"
  define e where "e = \<lfloor>log 2 y\<rfloor> - 52"
  define t where "t = y / 2 powr of_int e"
  define R where "R = round_half_even t"
  have y: "0 < y" using False by (simp add: y_def)
  have p: "0 < 2 powr (of_int e :: real)" by simp
  have t: "2 ^ 52 \<le> t" unfolding t_def e_def by (rule scaled_ge [OF y])
  have yt: "y = t * 2 powr of_int e" by (simp add: t_def)
  have rd: "round_double x = sgn x * (of_int R * 2 powr of_int e)"
    using False by (simp add: round_double_def Let_def y_def e_def t_def R_def)
  have "x = sgn x * y" by (simp add: y_def sgn_mult_abs)
  then have "round_double x - x = sgn x * ((of_int R - t) * 2 powr of_int e)"
    using rd yt by (simp add: algebra_simps)
  then have "\<bar>round_double x - x\<bar> = \<bar>of_int R - t\<bar> * 2 powr of_int e"
    using False by (simp add: abs_mult abs_sgn_eq)
  also have "\<dots> \<le> (1 / 2) * 2 powr of_int e"
    using round_half_even_error [of t] p unfolding R_def
    by (intro mult_right_mono) auto
  also have "\<dots> \<le> (t / 2 ^ 53) * 2 powr of_int e"
    using t p by (intro mult_right_mono) (auto simp: field_simps)
  also have "\<dots> = y / 2 ^ 53" using yt by simp
  finally show ?thesis by (simp add: y_def)
qed

text \<open>
  Evaluation: when \<open>\<bar>x\<bar> * 2\<^sup>n\<close> lies between \<open>2\<^sup>5\<^sup>2\<close> and \<open>2\<^sup>5\<^sup>3\<close>, the double nearest to \<open>x\<close>
  is \<open>\<bar>x\<bar> * 2\<^sup>n\<close> rounded to an integer, over \<open>2\<^sup>n\<close>, with the sign of \<open>x\<close>.
\<close>

lemma floor_log2_eq:
  assumes "0 < y" "2 powr of_int k \<le> y" "y < 2 powr of_int (k + 1)"
  shows "\<lfloor>log 2 y\<rfloor> = k"
proof (rule floor_unique)
  show "of_int k \<le> log 2 y" using assms by (simp add: le_log_iff)
  show "log 2 y < of_int k + 1" using assms by (simp add: log_less_iff)
qed

lemma round_double_eval:
  assumes "x \<noteq> 0" "2 ^ 52 \<le> \<bar>x\<bar> * 2 ^ n" "\<bar>x\<bar> * 2 ^ n < 2 ^ 53"
  shows "round_double x = sgn x * of_int (round_half_even (\<bar>x\<bar> * 2 ^ n)) / 2 ^ n"
proof -
  have pw: "2 powr (of_int (- int n) :: real) = 1 / 2 ^ n"
    by (simp add: powr_minus powr_realpow inverse_eq_divide)
  have "\<lfloor>log 2 \<bar>x\<bar>\<rfloor> = 52 - int n"
  proof (rule floor_log2_eq)
    show "0 < \<bar>x\<bar>" using assms by simp
    have lo: "2 powr (of_int (52 - int n) :: real) = 2 ^ 52 / 2 ^ n"
      by (simp add: powr_diff powr_realpow)
    show "2 powr of_int (52 - int n) \<le> \<bar>x\<bar>"
      unfolding lo using assms(2) by (simp add: pos_divide_le_eq)
    have "(of_int (52 - int n + 1) :: real) = 53 - real n" by simp
    then have hi: "2 powr (of_int (52 - int n + 1) :: real) = 2 ^ 53 / 2 ^ n"
      by (simp add: powr_diff powr_realpow)
    show "\<bar>x\<bar> < 2 powr of_int (52 - int n + 1)"
      unfolding hi using assms(3) by (simp add: pos_less_divide_eq)
  qed
  then have "\<lfloor>log 2 \<bar>x\<bar>\<rfloor> - 52 = - int n" by simp
  then show ?thesis
    using assms(1) pw by (simp add: round_double_def Let_def)
qed

text \<open>The doubles that the statements below meet.\<close>

lemma rd_fifth: "round_double (1 / 5) = 3602879701896397 / 2 ^ 54"
  using round_double_eval [of "1 / 5" 55] by (simp add: round_half_even_def)

lemma rd_three_tenths: "round_double (3 / 10) = 5404319552844595 / 2 ^ 54"
  using round_double_eval [of "3 / 10" 54] by (simp add: round_half_even_def)

lemma rd_tenth: "round_double (1 / 10) = 3602879701896397 / 2 ^ 55"
  using round_double_eval [of "1 / 10" 56] by (simp add: round_half_even_def)

lemma rd_one: "round_double 1 = 1"
  using round_double_eval [of 1 52] by (simp add: round_half_even_def)

lemma rd_three_halves: "round_double (3 / 2) = 3 / 2"
  using round_double_eval [of "3 / 2" 52] by (simp add: round_half_even_def)

lemma rd_prod: "round_double (3602879701896397 / 2 ^ 54 * (3 / 2)) = 5404319552844596 / 2 ^ 54"
  using round_double_eval [of "3602879701896397 / 2 ^ 54 * (3 / 2)" 54] by (simp add: round_half_even_def)

lemma rd_half_prod: "round_double (3602879701896397 / 2 ^ 54 * (1 / 2)) = 3602879701896397 / 2 ^ 55"
  using round_double_eval [of "3602879701896397 / 2 ^ 54 * (1 / 2)" 56] by (simp add: round_half_even_def)

lemma rd_gamma: "round_double (3602879701896397 / 2 ^ 54) = 3602879701896397 / 2 ^ 54"
  using round_double_eval [of "3602879701896397 / 2 ^ 54" 55] by (simp add: round_half_even_def)

lemma rd_half: "round_double (1 / 2) = 1 / 2"
  using round_double_eval [of "1 / 2" 53] by (simp add: round_half_even_def)

lemma rd_eight: "round_double 8 = 8"
  using round_double_eval [of 8 49] by (simp add: round_half_even_def)

lemma rd_quarter: "round_double (1 / 4) = 1 / 4"
  using round_double_eval [of "1 / 4" 54] by (simp add: round_half_even_def)

text \<open>With the identity for \<open>rnd\<close> the rounded functions are the exact ones.\<close>

lemma lb_drag_force_rounded_exact:
  "lb_drag_force_rounded (\<lambda>x. x) g p pos vel_offset = lb_drag_force g p pos vel_offset"
  by (simp add: lb_drag_force_rounded_def lb_drag_force_def)

lemma in_local_halo_rounded_exact: "in_local_halo_rounded (\<lambda>x. x) g pos = in_local_halo g pos"
  by (simp add: in_local_halo_rounded_def in_local_domain_rounded_def in_local_halo_def
      in_local_domain_def Let_def)

lemma pos_shifted_at_rounded_exact:
  "pos_shifted_at_rounded (\<lambda>x. x) g pos box i j k = pos_shifted_at g pos box i j k"
  by (simp add: pos_shifted_at_rounded_def pos_shifted_at_def Let_def)

lemma positions_in_halo_rounded_exact:
  "positions_in_halo_rounded (\<lambda>x. x) g pos box = positions_in_halo g pos box"
  by (simp add: positions_in_halo_rounded_def positions_in_halo_def pos_shifted_at_rounded_exact
      in_local_halo_rounded_exact)

section \<open>The local domain and its halo\<close>


section \<open>The periodic images\<close>

lemma concat_map_if_filter:
  "concat (map (\<lambda>k. if P (h k) then [h k] else []) ks) = filter P (map h ks)"
  by (induction ks) auto

text \<open>The three loops visit the shifts in the order of \<open>shifts27\<close> and keep what the test keeps.\<close>

lemma positions_in_halo_filter_shifts:
  "positions_in_halo g pos box =
     filter (in_local_halo g) (map (\<lambda>(i, j, k). pos_shifted_at g pos box i j k) shifts27)"
  unfolding positions_in_halo_def Let_def concat_map_if_filter
  by (simp add: shifts27_def filter_append [symmetric] del: filter.simps filter_append)

text \<open>
  The two tests of the loop body against \<open>epsilon\<close> and \<open>- epsilon\<close> exclude each other,
  and together they are the test \<open>epsilon < \<bar>normal_shift\<bar>\<close>.
\<close>

lemma pos_shifted_at_threshold:
  "pos_shifted_at g pos box i j k = threshold_image g box pos (i, j, k)"
proof -
  obtain x y z where p: "pos = Vec x y z" by (cases pos)
  obtain a b c where l: "box_length box = Vec a b c" by (cases "box_length box")
  show ?thesis
    using epsilon_pos
    by (cases "shear_plane_normal (lees_edwards_bc (box_geo g))";
        cases "shear_direction (lees_edwards_bc (box_geo g))")
       (auto simp: pos_shifted_at_def threshold_image_def Let_def p l sgn_if abs_if)
qed

lemma positions_in_halo_threshold:
  "positions_in_halo g pos box =
     filter (in_local_halo g) (map (threshold_image g box pos) shifts27)"
proof -
  have "(\<lambda>(i, j, k). pos_shifted_at g pos box i j k) = threshold_image g box pos"
    by (auto simp: pos_shifted_at_threshold fun_eq_iff)
  then show ?thesis
    by (simp add: positions_in_halo_filter_shifts)
qed

lemma positions_in_halo_all_in_halo:
  "list_all (in_local_halo g) (positions_in_halo g pos box)"
  by (simp add: positions_in_halo_threshold list_all_iff)

text \<open>
  A shift by \<open>-1\<close>, \<open>0\<close> or \<open>1\<close> box lengths is either zero or as long as the box; so when
  the box is longer than \<open>epsilon\<close> along the normal, the threshold only separates the zero
  shift from the others.
\<close>

lemma threshold_image_spec:
  assumes len: "epsilon < vec_nth (box_length box) (shear_plane_normal (lees_edwards_bc (box_geo g)))"
    and s: "s \<in> set shifts27"
  shows "threshold_image g box pos s = spec_image g box pos s"
proof -
  obtain i j k where ijk: "s = (i, j, k)" by (cases s)
  have r: "i \<in> {-1, 0, 1}" "j \<in> {-1, 0, 1}" "k \<in> {-1, 0, 1}"
    using s unfolding ijk shifts27_def by auto
  obtain a b c where l: "box_length box = Vec a b c" by (cases "box_length box")
  show ?thesis
    using len r epsilon_pos
    by (cases "shear_plane_normal (lees_edwards_bc (box_geo g))")
       (auto simp: threshold_image_def spec_image_def Let_def ijk l)
qed

lemma threshold_image_cuboid:
  "box_type (box_geo g) = CUBOID \<Longrightarrow> threshold_image g box pos s = spec_image g box pos s"
  by (cases s) (simp add: threshold_image_def spec_image_def Let_def)

subsection \<open>The images in double arithmetic\<close>

lemma positions_in_halo_rounded_filter_shifts:
  "positions_in_halo_rounded rnd g pos box =
     filter (in_local_halo_rounded rnd g)
       (map (\<lambda>(i, j, k). pos_shifted_at_rounded rnd g pos box i j k) shifts27)"
  unfolding positions_in_halo_rounded_def Let_def concat_map_if_filter
  by (simp add: shifts27_def filter_append [symmetric] del: filter.simps filter_append)

text \<open>
  The test of \<^verbatim>\<open>normal_shift\<close> against \<open>epsilon\<close>, as the machine decides it. The shift by
  one box length \<open>L\<close> is computed as \<open>(p + L) - p\<close> with two roundings; each is off by at
  most \<open>2\<^sup>-\<^sup>5\<^sup>3\<close> of its exact result, so for a coordinate \<open>p\<close> within \<open>2\<^sup>2\<^sup>0\<close> box lengths
  of the origin the computed shift is at least \<open>21/32 L\<close>, which is above \<open>epsilon\<close> as
  soon as \<open>L\<close> is at least \<open>2 epsilon\<close>.
\<close>

lemma normal_shift_up:
  assumes L: "2 * epsilon \<le> L" and p: "\<bar>p\<bar> \<le> 2 ^ 20 * L"
  shows "epsilon < round_double (round_double (p + L) - p)"
proof -
  have Lpos: "0 < L" using L epsilon_pos by linarith
  define w where "w = round_double (p + L) - p"
  define r where "r = round_double w"
  have "\<bar>round_double (p + L) - (p + L)\<bar> \<le> \<bar>p + L\<bar> / 2 ^ 53"
    by (rule round_double_error)
  moreover have "\<bar>p + L\<bar> \<le> (2 ^ 20 + 1) * L"
    using p Lpos by (simp add: algebra_simps)
  then have "\<bar>p + L\<bar> / 2 ^ 53 \<le> (2 ^ 20 + 1) * L / 2 ^ 53"
    by (rule divide_right_mono) simp
  moreover have "(2 ^ 20 + 1) * L / 2 ^ 53 \<le> L / 4"
    using Lpos by simp
  ultimately have "\<bar>round_double (p + L) - (p + L)\<bar> \<le> L / 4"
    by linarith
  then have d: "3 * L / 4 \<le> w"
    unfolding w_def abs_diff_le_iff by linarith
  have "\<bar>r - w\<bar> \<le> \<bar>w\<bar> / 2 ^ 53"
    unfolding r_def by (rule round_double_error)
  moreover have "\<bar>w\<bar> / 2 ^ 53 \<le> w / 8"
    using d Lpos by simp
  ultimately have "\<bar>r - w\<bar> \<le> w / 8"
    by (rule order_trans)
  then have "w - w / 8 \<le> r"
    unfolding abs_diff_le_iff by blast
  then have "21 * L / 32 \<le> r" using d by linarith
  then have "epsilon < r" using L epsilon_pos by linarith
  then show ?thesis by (simp add: r_def w_def)
qed

lemma normal_shift_down:
  assumes L: "2 * epsilon \<le> L" and p: "\<bar>p\<bar> \<le> 2 ^ 20 * L"
  shows "round_double (round_double (p - L) - p) < - epsilon"
proof -
  have "epsilon < round_double (round_double (- p + L) - (- p))"
    using normal_shift_up [of L "- p"] L p by simp
  moreover have "round_double (round_double (- p + L) - (- p))
                   = - round_double (round_double (p - L) - p)"
  proof -
    have "round_double (- p + L) = - round_double (p - L)"
      using round_double_minus [of "p - L"] by simp
    then show ?thesis
      using round_double_minus [of "round_double (p - L) - p"] by simp
  qed
  ultimately show ?thesis by linarith
qed

lemma vec_nth_round [simp]: "vec_nth (vec_round rnd v) a = rnd (vec_nth v a)"
  by (cases v; cases a) simp_all

lemma vec_nth_plus [simp]: "vec_nth (u + v) a = vec_nth u a + vec_nth v a"
  by (cases u; cases v; cases a) simp_all

lemma vec_nth_minus [simp]: "vec_nth (u - v) a = vec_nth u a - vec_nth v a"
  by (cases u; cases v; cases a) simp_all

lemma vec_nth_hadamard [simp]:
  "vec_nth (hadamard_product u v) a = vec_nth u a * vec_nth v a"
  by (cases u; cases v; cases a) simp_all

lemma normal_shift_test:
  assumes s: "s \<in> {-1, 0, 1}"
    and dL: "round_double L = L" and dp: "round_double p = p"
    and L: "2 * epsilon \<le> L" and p: "\<bar>p\<bar> \<le> 2 ^ 20 * L"
  shows "(epsilon < round_double (round_double (p + round_double (L * real_of_int s)) - p))
           = (0 < round_double (L * real_of_int s))"
    and "(round_double (round_double (p + round_double (L * real_of_int s)) - p) < - epsilon)
           = (round_double (L * real_of_int s) < 0)"
proof -
  have Lpos: "0 < L" using L epsilon_pos by linarith
  consider "s = 0" | "s = 1" | "s = - 1" using s by auto
  then have "(epsilon < round_double (round_double (p + round_double (L * real_of_int s)) - p))
           = (0 < round_double (L * real_of_int s))
     \<and> (round_double (round_double (p + round_double (L * real_of_int s)) - p) < - epsilon)
           = (round_double (L * real_of_int s) < 0)"
  proof cases
    case 1
    then show ?thesis using epsilon_pos by (simp add: dp)
  next
    case 2
    have "epsilon < round_double (round_double (p + L) - p)"
      by (rule normal_shift_up [OF L p])
    then show ?thesis using 2 Lpos epsilon_pos by (simp add: dL)
  next
    case 3
    have "round_double (round_double (p - L) - p) < - epsilon"
      by (rule normal_shift_down [OF L p])
    then show ?thesis using 3 Lpos epsilon_pos by (simp add: dL round_double_minus)
  qed
  then show "(epsilon < round_double (round_double (p + round_double (L * real_of_int s)) - p))
           = (0 < round_double (L * real_of_int s))"
    and "(round_double (round_double (p + round_double (L * real_of_int s)) - p) < - epsilon)
           = (round_double (L * real_of_int s) < 0)"
    by blast+
qed

lemma pos_shifted_at_rounded_spec:
  assumes s: "(i, j, k) \<in> set shifts27"
    and dL: "round_double (vec_nth (box_length box) (shear_plane_normal (lees_edwards_bc (box_geo g))))
               = vec_nth (box_length box) (shear_plane_normal (lees_edwards_bc (box_geo g)))"
    and dp: "round_double (vec_nth pos (shear_plane_normal (lees_edwards_bc (box_geo g))))
               = vec_nth pos (shear_plane_normal (lees_edwards_bc (box_geo g)))"
    and L: "2 * epsilon \<le> vec_nth (box_length box) (shear_plane_normal (lees_edwards_bc (box_geo g)))"
    and p: "\<bar>vec_nth pos (shear_plane_normal (lees_edwards_bc (box_geo g)))\<bar>
              \<le> 2 ^ 20 * vec_nth (box_length box) (shear_plane_normal (lees_edwards_bc (box_geo g)))"
  shows "pos_shifted_at_rounded round_double g pos box i j k
           = spec_image_rounded round_double g box pos (i, j, k)"
proof -
  define n where "n = shear_plane_normal (lees_edwards_bc (box_geo g))"
  define sn where "sn = (case n of Axis0 \<Rightarrow> i | Axis1 \<Rightarrow> j | Axis2 \<Rightarrow> k)"
  have r: "i \<in> {-1, 0, 1}" "j \<in> {-1, 0, 1}" "k \<in> {-1, 0, 1}"
    using s unfolding shifts27_def by auto
  then have sn: "sn \<in> {-1, 0, 1}"
    unfolding sn_def by (cases n) auto
  have shift_n: "vec_nth (Vec (real_of_int i) (real_of_int j) (real_of_int k)) n = real_of_int sn"
    unfolding sn_def by (cases n) simp_all
  let ?le = "lees_edwards_bc (box_geo g)"
  let ?d = "vec_round round_double
              (hadamard_product (box_length box) (Vec (real_of_int i) (real_of_int j) (real_of_int k)))"
  let ?ps = "vec_round round_double (pos + ?d)"
  let ?ns = "vec_nth (vec_round round_double (?ps - pos)) (shear_plane_normal ?le)"
  let ?dn = "vec_nth ?d (shear_plane_normal ?le)"
  note t = normal_shift_test [OF sn dL [folded n_def] dp [folded n_def] L [folded n_def] p [folded n_def]]
  have c: "(epsilon < ?ns) = (0 < ?dn)" "(?ns < - epsilon) = (?dn < 0)"
    using t by (simp_all add: n_def [symmetric] shift_n)
  have lhs: "pos_shifted_at_rounded round_double g pos box i j k =
     (if box_type (box_geo g) = LEES_EDWARDS then
        (if 0 < ?dn
         then vec_upd ?ps (shear_direction ?le)
                (round_double (vec_nth ?ps (shear_direction ?le) + pos_offset ?le))
         else if ?dn < 0
         then vec_upd ?ps (shear_direction ?le)
                (round_double (vec_nth ?ps (shear_direction ?le) - pos_offset ?le))
         else ?ps)
      else ?ps)"
    unfolding pos_shifted_at_rounded_def Let_def c
    by auto
  show ?thesis
    unfolding lhs spec_image_rounded_def Let_def prod.case by simp
qed

lemma pos_shifted_at_rounded_cuboid:
  "box_type (box_geo g) = CUBOID \<Longrightarrow>
     pos_shifted_at_rounded rnd g pos box i j k = spec_image_rounded rnd g box pos (i, j, k)"
  by (simp add: pos_shifted_at_rounded_def spec_image_rounded_def Let_def)

subsection \<open>The enumeration\<close>

text \<open>
  C7. \<^verbatim>\<open>positions_in_halo(pos, box)\<close> goes through the 27 shifts by -1, 0, +1 box lengths
  per axis in the nested order \<open>x\<close>, \<open>y\<close>, \<open>z\<close>; in a Lees-Edwards box each candidate whose
  shift along the shear-plane normal is not zero has its shear-direction coordinate moved
  by the position offset, with the sign of the shift; and the result is the list of the
  candidates that satisfy \<^verbatim>\<open>in_local_halo\<close>, in that order. This holds in double
  arithmetic and in exact arithmetic, for every box that is not sheared, and for every
  sheared box that is at least \<open>2 epsilon\<close> long along the normal with the position within
  \<open>2\<^sup>2\<^sup>0\<close> box lengths of the origin along it (the box length and the coordinate being
  doubles): there the source's test of the computed shift against \<open>epsilon\<close> is the test
  for a nonzero shift.
\<close>

theorem positions_in_halo_enumeration:
  "box_type (box_geo g) = CUBOID
   \<or> (round_double (vec_nth (box_length box) (shear_plane_normal (lees_edwards_bc (box_geo g))))
          = vec_nth (box_length box) (shear_plane_normal (lees_edwards_bc (box_geo g)))
      \<and> round_double (vec_nth pos (shear_plane_normal (lees_edwards_bc (box_geo g))))
          = vec_nth pos (shear_plane_normal (lees_edwards_bc (box_geo g)))
      \<and> 2 * epsilon \<le> vec_nth (box_length box) (shear_plane_normal (lees_edwards_bc (box_geo g)))
      \<and> \<bar>vec_nth pos (shear_plane_normal (lees_edwards_bc (box_geo g)))\<bar>
          \<le> 2 ^ 20 * vec_nth (box_length box) (shear_plane_normal (lees_edwards_bc (box_geo g))))
   \<Longrightarrow>
     positions_in_halo_rounded round_double g pos box =
       filter (in_local_halo_rounded round_double g)
         (map (spec_image_rounded round_double g box pos) shifts27)
   \<and> positions_in_halo g pos box =
       filter (in_local_halo g) (map (spec_image g box pos) shifts27)"
proof (intro conjI)
  assume h: "box_type (box_geo g) = CUBOID
   \<or> (round_double (vec_nth (box_length box) (shear_plane_normal (lees_edwards_bc (box_geo g))))
          = vec_nth (box_length box) (shear_plane_normal (lees_edwards_bc (box_geo g)))
      \<and> round_double (vec_nth pos (shear_plane_normal (lees_edwards_bc (box_geo g))))
          = vec_nth pos (shear_plane_normal (lees_edwards_bc (box_geo g)))
      \<and> 2 * epsilon \<le> vec_nth (box_length box) (shear_plane_normal (lees_edwards_bc (box_geo g)))
      \<and> \<bar>vec_nth pos (shear_plane_normal (lees_edwards_bc (box_geo g)))\<bar>
          \<le> 2 ^ 20 * vec_nth (box_length box) (shear_plane_normal (lees_edwards_bc (box_geo g))))"
  have "\<And>s. s \<in> set shifts27 \<Longrightarrow>
          (case s of (i, j, k) \<Rightarrow> pos_shifted_at_rounded round_double g pos box i j k)
            = spec_image_rounded round_double g box pos s"
    using h pos_shifted_at_rounded_cuboid pos_shifted_at_rounded_spec by (auto split: prod.splits)
  then have "map (\<lambda>(i, j, k). pos_shifted_at_rounded round_double g pos box i j k) shifts27
               = map (spec_image_rounded round_double g box pos) shifts27"
    by (intro map_cong refl)
  then show "positions_in_halo_rounded round_double g pos box =
       filter (in_local_halo_rounded round_double g)
         (map (spec_image_rounded round_double g box pos) shifts27)"
    by (simp only: positions_in_halo_rounded_filter_shifts)
  have "epsilon < vec_nth (box_length box) (shear_plane_normal (lees_edwards_bc (box_geo g)))"
    if "box_type (box_geo g) \<noteq> CUBOID"
    using h that epsilon_pos by auto
  then have "\<And>s. s \<in> set shifts27 \<Longrightarrow> threshold_image g box pos s = spec_image g box pos s"
    using threshold_image_cuboid threshold_image_spec by blast
  then have "map (threshold_image g box pos) shifts27 = map (spec_image g box pos) shifts27"
    by (intro map_cong refl)
  then show "positions_in_halo g pos box =
       filter (in_local_halo g) (map (spec_image g box pos) shifts27)"
    by (simp only: positions_in_halo_threshold)
qed

text \<open>
  In the sheared box of length 8 with offset 1, the position \<open>(1/4, 1/4, 4)\<close> has three
  images in the halo: itself, the image one box up in \<open>y\<close> (moved by \<open>+1\<close> in \<open>x\<close>), and
  the image one box up in \<open>x\<close>.
\<close>

theorem positions_in_halo_enumeration_witness:
  "round_double (vec_nth (box_length example_le_box)
       (shear_plane_normal (lees_edwards_bc (box_geo (example_globals\<lparr>box_geo := example_le_box\<rparr>))))) = 8
   \<and> round_double (vec_nth (Vec (1 / 4) (1 / 4) 4)
       (shear_plane_normal (lees_edwards_bc (box_geo (example_globals\<lparr>box_geo := example_le_box\<rparr>))))) = 1 / 4
   \<and> positions_in_halo_rounded round_double (example_globals\<lparr>box_geo := example_le_box\<rparr>)
         (Vec (1 / 4) (1 / 4) 4) example_le_box
       = filter (in_local_halo_rounded round_double (example_globals\<lparr>box_geo := example_le_box\<rparr>))
           (map (spec_image_rounded round_double (example_globals\<lparr>box_geo := example_le_box\<rparr>)
                   example_le_box (Vec (1 / 4) (1 / 4) 4)) shifts27)
   \<and> positions_in_halo (example_globals\<lparr>box_geo := example_le_box\<rparr>) (Vec (1 / 4) (1 / 4) 4) example_le_box
       = [Vec (1 / 4) (1 / 4) 4, Vec (5 / 4) (33 / 4) 4, Vec (33 / 4) (1 / 4) 4]"
proof -
  let ?g = "example_globals\<lparr>box_geo := example_le_box\<rparr>"
  let ?n = "shear_plane_normal (lees_edwards_bc (box_geo ?g))"
  have n: "vec_nth (box_length example_le_box) ?n = 8" "vec_nth (Vec (1 / 4) (1 / 4) 4) ?n = 1 / 4"
    by (simp_all add: example_le_box_def)
  have h: "round_double (vec_nth (box_length example_le_box) ?n) = vec_nth (box_length example_le_box) ?n
      \<and> round_double (vec_nth (Vec (1 / 4) (1 / 4) 4) ?n) = vec_nth (Vec (1 / 4) (1 / 4) 4) ?n
      \<and> 2 * epsilon \<le> vec_nth (box_length example_le_box) ?n
      \<and> \<bar>vec_nth (Vec (1 / 4) (1 / 4) 4) ?n\<bar> \<le> 2 ^ 20 * vec_nth (box_length example_le_box) ?n"
    unfolding n by (simp add: rd_eight rd_quarter epsilon_def)
  have l: "filter (in_local_halo ?g) (map (spec_image ?g example_le_box (Vec (1 / 4) (1 / 4) 4)) shifts27)
       = [Vec (1 / 4) (1 / 4) 4, Vec (5 / 4) (33 / 4) 4, Vec (33 / 4) (1 / 4) 4]"
    by (simp add: shifts27_def spec_image_def example_le_box_def example_globals_def geo_simps)
  from h have "box_type (box_geo ?g) = CUBOID \<or> (round_double (vec_nth (box_length example_le_box) ?n) = vec_nth (box_length example_le_box) ?n
      \<and> round_double (vec_nth (Vec (1 / 4) (1 / 4) 4) ?n) = vec_nth (Vec (1 / 4) (1 / 4) 4) ?n
      \<and> 2 * epsilon \<le> vec_nth (box_length example_le_box) ?n
      \<and> \<bar>vec_nth (Vec (1 / 4) (1 / 4) 4) ?n\<bar> \<le> 2 ^ 20 * vec_nth (box_length example_le_box) ?n)"
    by blast
  from positions_in_halo_enumeration [OF this] l n h rd_eight rd_quarter
  show ?thesis by (simp only: simp_thms)
qed

section \<open>The drag force\<close>

text \<open>
  The drag force of the unit test in double arithmetic. The difference of the velocities is
  exactly \<open>(-1.5, 0.5, 1)\<close>; the products with the double \<open>-0.2\<close> are exact in \<open>y\<close> and
  \<open>z\<close>, and in \<open>x\<close> the exact product lies halfway between two doubles, of which the one
  with the even significand is the upper one.
\<close>

lemma quiescent_drag_double:
  assumes u: "get_interpolated_velocity g pos = Vec 0 0 0"
    and gam: "gamma (lb_particle_coupling g) = round_double 0.2"
    and v: "p_v p = Vec (- 2.5) 1.5 2"
  shows "lb_drag_force_rounded round_double g p pos (Vec (- 1) 1 1)
           = Vec (5404319552844596 / 2 ^ 54) (- (3602879701896397 / 2 ^ 55))
                 (- (3602879701896397 / 2 ^ 54))"
proof -
  define G :: real where "G = 3602879701896397 / 2 ^ 54"
  have gG: "gamma (lb_particle_coupling g) = G"
    using gam rd_fifth by (simp add: G_def)
  have s1: "vec_round round_double (scale (get_lattice_speed g) (Vec 0 0 0)) = Vec 0 0 0"
    by simp
  have s2: "vec_round round_double (Vec 0 0 0 + Vec (- 1) 1 1) = Vec (- 1) 1 1"
    by (simp add: round_double_minus rd_one)
  have s3: "vec_round round_double (Vec (- 2.5) 1.5 2 - Vec (- 1) 1 1) = Vec (- (3 / 2)) (1 / 2) 1"
    by (simp add: round_double_minus rd_three_halves rd_half rd_one)
  have m: "- G * - (3 / 2) = G * (3 / 2)" "- G * (1 / 2) = - (G * (1 / 2))" "- G * 1 = - G"
    by simp_all
  have r: "round_double (G * (3 / 2)) = 5404319552844596 / 2 ^ 54"
    "round_double (G * (1 / 2)) = 3602879701896397 / 2 ^ 55"
    "round_double G = 3602879701896397 / 2 ^ 54"
    unfolding G_def by (rule rd_prod rd_half_prod rd_gamma)+
  have s4: "vec_round round_double (scale (- G) (Vec (- (3 / 2)) (1 / 2) 1))
              = Vec (5404319552844596 / 2 ^ 54) (- (3602879701896397 / 2 ^ 55))
                    (- (3602879701896397 / 2 ^ 54))"
    by (simp only: scale_Vec vec_round_Vec m round_double_minus r)
  show ?thesis
    unfolding lb_drag_force_rounded_def lb_lbcoupling_get_gamma_def Let_def u v gG s1 s2 s3 s4 ..
qed

text \<open>
  C4 (as amended). \<^verbatim>\<open>lb_drag_force(p, pos, drift_offset)\<close> computes
  \<open>- gamma * (p.v - (interpolated_velocity(pos) * lattice_speed + drift_offset))\<close>, the
  result of each operation rounded, for every particle, position and drift offset, and it
  does not read the temperature. In particular, where the interpolated velocity is zero,
  with \<open>gamma = 0.2\<close>, particle velocity \<open>(-2.5, 1.5, 2)\<close> and drift offset \<open>(-1, 1, 1)\<close>,
  the force in double arithmetic has the doubles \<open>-0.1\<close> and \<open>-0.2\<close> as its \<open>y\<close> and \<open>z\<close>
  components, and its \<open>x\<close> component is the double next above \<open>0.3\<close>, larger by \<open>2\<^sup>-\<^sup>5\<^sup>4\<close>.
\<close>

theorem lb_drag_force_double:
  "lb_drag_force_rounded rnd g p pos drift_offset =
     vec_round rnd (scale (- gamma (lb_particle_coupling g))
       (vec_round rnd (p_v p - vec_round rnd
          (vec_round rnd (scale (get_lattice_speed g) (get_interpolated_velocity g pos))
             + drift_offset))))
   \<and> lb_drag_force_rounded rnd (g\<lparr>get_kT := kT\<rparr>) p pos drift_offset
       = lb_drag_force_rounded rnd g p pos drift_offset
   \<and> (get_interpolated_velocity g pos = Vec 0 0 0
        \<and> gamma (lb_particle_coupling g) = round_double 0.2
        \<and> p_v p = Vec (- 2.5) 1.5 2 \<and> drift_offset = Vec (- 1) 1 1
      \<longrightarrow> lb_drag_force_rounded round_double g p pos drift_offset
            = Vec (round_double 0.3 + 1 / 2 ^ 54) (round_double (- 0.1)) (round_double (- 0.2)))"
proof (intro conjI impI)
  show "lb_drag_force_rounded rnd g p pos drift_offset =
     vec_round rnd (scale (- gamma (lb_particle_coupling g))
       (vec_round rnd (p_v p - vec_round rnd
          (vec_round rnd (scale (get_lattice_speed g) (get_interpolated_velocity g pos))
             + drift_offset))))"
    by (simp add: lb_drag_force_rounded_def lb_lbcoupling_get_gamma_def)
  show "lb_drag_force_rounded rnd (g\<lparr>get_kT := kT\<rparr>) p pos drift_offset
       = lb_drag_force_rounded rnd g p pos drift_offset"
    by (simp add: lb_drag_force_rounded_def lb_lbcoupling_get_gamma_def)
next
  assume h: "get_interpolated_velocity g pos = Vec 0 0 0
        \<and> gamma (lb_particle_coupling g) = round_double 0.2
        \<and> p_v p = Vec (- 2.5) 1.5 2 \<and> drift_offset = Vec (- 1) 1 1"
  have e: "round_double 0.3 + 1 / 2 ^ 54 = 5404319552844596 / 2 ^ 54"
    "round_double (- 0.1) = - (3602879701896397 / 2 ^ 55)"
    "round_double (- 0.2) = - (3602879701896397 / 2 ^ 54)"
    using rd_three_tenths rd_tenth rd_fifth by (simp_all add: round_double_minus)
  from h quiescent_drag_double [of g pos p]
  show "lb_drag_force_rounded round_double g p pos drift_offset
            = Vec (round_double 0.3 + 1 / 2 ^ 54) (round_double (- 0.1)) (round_double (- 0.2))"
    unfolding e by simp
qed

text \<open>The drag-force test case: the particle sits at the lower corner of the local domain.\<close>

theorem lb_drag_force_double_witness:
  "get_interpolated_velocity example_double_globals (Vec 0 0 0) = Vec 0 0 0
   \<and> gamma (lb_particle_coupling example_double_globals) = round_double 0.2
   \<and> p_v example_particle = Vec (- 2.5) 1.5 2
   \<and> lb_drag_force_rounded round_double example_double_globals example_particle (Vec 0 0 0) (Vec (- 1) 1 1)
       = Vec (round_double 0.3 + 1 / 2 ^ 54) (round_double (- 0.1)) (round_double (- 0.2))"
proof -
  have h: "get_interpolated_velocity example_double_globals (Vec 0 0 0) = Vec 0 0 0"
    "gamma (lb_particle_coupling example_double_globals) = round_double 0.2"
    "p_v example_particle = Vec (- 2.5) 1.5 2"
    by (simp_all add: example_double_globals_def example_globals_def example_particle_def)
  with lb_drag_force_double
    [of round_double example_double_globals example_particle "Vec 0 0 0" "Vec (- 1) 1 1"]
  show ?thesis by blast
qed

text \<open>
  C4 as stated fails in the test case itself: the force that double arithmetic returns is
  not the vector of the doubles \<open>0.3\<close>, \<open>-0.1\<close>, \<open>-0.2\<close>.
\<close>

theorem lb_drag_force_double_counterexample:
  "lb_drag_force_rounded round_double example_double_globals example_particle (Vec 0 0 0) (Vec (- 1) 1 1)
     \<noteq> Vec (round_double 0.3) (round_double (- 0.1)) (round_double (- 0.2))"
proof -
  have h: "get_interpolated_velocity example_double_globals (Vec 0 0 0) = Vec 0 0 0"
    "gamma (lb_particle_coupling example_double_globals) = round_double 0.2"
    "p_v example_particle = Vec (- 2.5) 1.5 2"
    by (simp_all add: example_double_globals_def example_globals_def example_particle_def)
  have "round_double 0.3 \<noteq> 5404319552844596 / 2 ^ 54"
    using rd_three_tenths by simp
  then show ?thesis
    unfolding quiescent_drag_double [OF h] by simp
qed

section \<open>The RNG counter\<close>

text \<open>
  C5. With a lattice method active, \<open>kT > 0\<close> and a seeded counter, one call of
  \<^verbatim>\<open>lb_lbcoupling_propagate\<close> replaces the counter \<open>c\<close> by \<open>c + 1\<close> (in 64-bit unsigned
  arithmetic) and changes nothing else, so \<^verbatim>\<open>lb_lbcoupling_get_rng_state\<close> returns \<open>c\<close>
  before the call and \<open>c + 1\<close> after it. When \<open>kT\<close> is not positive or no lattice method
  is active, the call leaves the whole state, and with it the counter, as it was.
\<close>

theorem lb_lbcoupling_propagate_counter:
  "(lattice_switch g \<noteq> NONE \<and> get_kT g > 0
      \<and> rng_counter_coupling (lb_particle_coupling g) = Some c
    \<longrightarrow> lb_lbcoupling_get_rng_state g = Inr c
        \<and> lb_lbcoupling_propagate g =
            Inr (g\<lparr>lb_particle_coupling :=
                   (lb_particle_coupling g)\<lparr>rng_counter_coupling := Some (c + 1)\<rparr>\<rparr>)
        \<and> (\<exists>g'. lb_lbcoupling_propagate g = Inr g' \<and> lb_lbcoupling_get_rng_state g' = Inr (c + 1)))
   \<and> (\<not> get_kT g > 0 \<or> lattice_switch g = NONE \<longrightarrow> lb_lbcoupling_propagate g = Inr g)"
  by (cases "lattice_switch g")
     (auto simp: lb_lbcoupling_propagate_def lb_lbcoupling_get_rng_state_def
        lb_coupling_get_rng_state_cpu_def counter_value_def increment_def)

text \<open>
  The unit test: seeded with 17, one propagation at \<open>kT = 1e-4\<close> gives 18; at \<open>kT = 0\<close>
  the state stays.
\<close>

theorem lb_lbcoupling_propagate_counter_witness:
  "lb_lbcoupling_get_rng_state example_globals = Inr 17
   \<and> (\<exists>g'. lb_lbcoupling_propagate example_globals = Inr g'
            \<and> lb_lbcoupling_get_rng_state g' = Inr 18)
   \<and> lb_lbcoupling_propagate (example_globals\<lparr>get_kT := 0\<rparr>) = Inr (example_globals\<lparr>get_kT := 0\<rparr>)"
proof -
  have a: "lattice_switch example_globals \<noteq> NONE \<and> get_kT example_globals > 0
      \<and> rng_counter_coupling (lb_particle_coupling example_globals) = Some 17"
    by (simp add: example_globals_def)
  have b: "\<not> get_kT (example_globals\<lparr>get_kT := 0\<rparr>) > 0
      \<or> lattice_switch (example_globals\<lparr>get_kT := 0\<rparr>) = NONE"
    by simp
  from a lb_lbcoupling_propagate_counter [of example_globals 17]
  have "lb_lbcoupling_get_rng_state example_globals = Inr 17
   \<and> (\<exists>g'. lb_lbcoupling_propagate example_globals = Inr g'
            \<and> lb_lbcoupling_get_rng_state g' = Inr (17 + 1))"
    by blast
  moreover from b lb_lbcoupling_propagate_counter [of "example_globals\<lparr>get_kT := 0\<rparr>"]
  have "lb_lbcoupling_propagate (example_globals\<lparr>get_kT := 0\<rparr>) = Inr (example_globals\<lparr>get_kT := 0\<rparr>)"
    by blast
  ultimately show ?thesis by simp
qed

section \<open>The noise term\<close>

text \<open>
  C10. When the coupling is not thermalized, \<^verbatim>\<open>get_noise_term\<close> returns the zero vector
  for every particle id, whatever the RNG counter holds and whether or not it was ever
  seeded.
\<close>

theorem get_noise_term_not_thermalized:
  "\<not> m_thermalized pc \<Longrightarrow> get_noise_term g pc pid = Inr (Vec 0 0 0)"
  by (simp add: get_noise_term_def zero_Vector3d_def)

theorem get_noise_term_not_thermalized_witness:
  "get_noise_term example_unseeded example_coupling 5 = Inr (Vec 0 0 0)
   \<and> get_noise_term example_globals example_coupling 5 = Inr (Vec 0 0 0)"
proof -
  have "\<not> m_thermalized example_coupling"
    by (simp add: example_coupling_def)
  then show ?thesis
    using get_noise_term_not_thermalized by blast
qed

text \<open>
  C8 (as amended). On a thermalized coupling, \<^verbatim>\<open>get_noise_term\<close> called before a seed has
  been set fails with the error "Access to uninitialized LB particle coupling RNG
  counter", whatever the lattice switch; it is a query and returns only this result.
\<close>

theorem get_noise_term_uninitialized:
  "m_thermalized pc \<Longrightarrow> rng_counter_coupling (lb_particle_coupling g) = None
   \<Longrightarrow> get_noise_term g pc pid = Inl Uninitialized_RNG_counter"
  by (simp add: get_noise_term_def)

theorem get_noise_term_uninitialized_witness:
  "get_noise_term example_unseeded (example_coupling\<lparr>m_thermalized := True\<rparr>) 0
     = Inl Uninitialized_RNG_counter"
  by (rule get_noise_term_uninitialized) (simp_all add: example_unseeded_def)

text \<open>
  C8 as stated fails on a coupling that is not thermalized: with the lattice method
  active and no seed set, \<^verbatim>\<open>get_noise_term\<close> returns the zero vector and no error.
\<close>

theorem get_noise_term_unseeded_counterexample:
  "lattice_switch example_unseeded = WALBERLA_LB
   \<and> rng_counter_coupling (lb_particle_coupling example_unseeded) = None
   \<and> get_noise_term example_unseeded example_coupling 0 = Inr (Vec 0 0 0)"
  by (simp add: example_unseeded_def example_globals_def example_coupling_def get_noise_term_def
      zero_Vector3d_def)

text \<open>
  \<^verbatim>\<open>lb_lbcoupling_get_rng_state\<close> has no such test: before a seed is set it reaches
  \<^verbatim>\<open>rng_counter_coupling->value()\<close> on the empty optional.
\<close>

lemma lb_lbcoupling_get_rng_state_unseeded:
  "lb_lbcoupling_get_rng_state example_unseeded = Inl Empty_optional_access"
  by (simp add: lb_lbcoupling_get_rng_state_def lb_coupling_get_rng_state_cpu_def
      example_unseeded_def example_globals_def)

section \<open>The kernel\<close>

lemma add_md_force_deposit:
  "add_md_force g pos f dt fl = fl @ md_force_deposits g f dt [pos]"
  by (simp add: add_md_force_def lb_lbinterpolation_add_force_density_def md_force_deposits_def)

lemma foldl_add_md_force:
  "foldl (\<lambda>fl pos. add_md_force g pos f dt fl) fl ps = fl @ md_force_deposits g f dt ps"
  by (induction ps arbitrary: fl) (simp_all add: add_md_force_deposit md_force_deposits_def)

text \<open>
  The second loop: the particle's force grows by the coupling force once for each
  position in the local domain, and the fluid receives one deposit for each position.
\<close>

lemma couple_positions_result:
  "couple_positions g pc F ps (p, fl) =
     (p\<lparr>p_force := p_force p
          + scale (real (length (filter (\<lambda>pos. in_local_domain g pos 0) ps))) F\<rparr>,
      fl @ md_force_deposits g F (m_time_step pc) ps)"
proof (induction ps arbitrary: p fl)
  case Nil
  show ?case by (simp add: md_force_deposits_def)
next
  case (Cons pos ps)
  show ?case
    by (simp add: Cons.IH add_md_force_deposit md_force_deposits_def vec_add_scale_Suc
        del: of_nat_Suc)
qed

lemma add_swimmer_force_append:
  "add_swimmer_force g p dt fl = fl @ add_swimmer_force g p dt []"
  by (simp add: add_swimmer_force_def Let_def foldl_add_md_force)

lemma add_swimmer_force_p_force [simp]:
  "add_swimmer_force g (p\<lparr>p_force := f\<rparr>) dt fl = add_swimmer_force g p dt fl"
  by (simp add: add_swimmer_force_def)

text \<open>
  C2 (as amended). For a particle that \<^verbatim>\<open>kernel\<close> does not skip and for which it returns,
  the coupling force is handed to \<^verbatim>\<open>add_md_force\<close> once for each periodic image in the
  list \<^verbatim>\<open>positions_in_halo(p.pos())\<close>, in the order of the list, and at no other position;
  each of these images lies in the local halo. The deposits that follow, in a build with
  \<^verbatim>\<open>ENGINE\<close>, are those of \<^verbatim>\<open>add_swimmer_force\<close>. Only the particle's own force is
  restricted to the local domain: it grows by the coupling force once for each image of
  the list that lies in the local domain.
\<close>

theorem kernel_deposits:
  assumes nv: "\<not> (p_is_virtual p \<and> \<not> m_couple_virtual pc)"
    and run: "kernel g pc (p, fl) = Inr (p', fl')"
  shows "\<exists>coupling_force.
           calc_coupling_force g pc p (positions_in_halo g (p_pos p) (box_geo g)) = Inr coupling_force
         \<and> fl' = fl @ md_force_deposits g coupling_force (m_time_step pc)
                        (positions_in_halo g (p_pos p) (box_geo g))
                    @ (if ENGINE g then add_swimmer_force g p (m_time_step pc) [] else [])
         \<and> p' = p\<lparr>p_force := p_force p
                    + scale (real (length (filter (\<lambda>pos. in_local_domain g pos 0)
                                            (positions_in_halo g (p_pos p) (box_geo g)))))
                        coupling_force\<rparr>
         \<and> list_all (in_local_halo g) (positions_in_halo g (p_pos p) (box_geo g))"
proof -
  let ?ps = "positions_in_halo g (p_pos p) (box_geo g)"
  from run nv obtain F where F: "calc_coupling_force g pc p ?ps = Inr F"
    by (auto simp: kernel_def split: sum.splits)
  from run nv F have r: "p' = fst (couple_positions g pc F ?ps (p, fl))"
    "fl' = (if ENGINE g then add_swimmer_force g p' (m_time_step pc)
                               (snd (couple_positions g pc F ?ps (p, fl)))
            else snd (couple_positions g pc F ?ps (p, fl)))"
    by (auto simp: kernel_def split: prod.splits)
  have p': "p' = p\<lparr>p_force := p_force p
                    + scale (real (length (filter (\<lambda>pos. in_local_domain g pos 0) ?ps))) F\<rparr>"
    by (simp add: r(1) couple_positions_result)
  have "fl' = fl @ md_force_deposits g F (m_time_step pc) ?ps
                 @ (if ENGINE g then add_swimmer_force g p (m_time_step pc) [] else [])"
    using add_swimmer_force_append
      [of g p "m_time_step pc" "fl @ md_force_deposits g F (m_time_step pc) ?ps"]
    by (simp add: r(2) p' couple_positions_result)
  with F p' positions_in_halo_all_in_halo show ?thesis by blast
qed

text \<open>
  The example particle at \<open>x = 1/4\<close> in the box of length 8: its images in the halo are
  the position itself and the image one box length up in \<open>x\<close>, at \<open>x = 33/4\<close>.
\<close>

lemma example_positions:
  "positions_in_halo example_globals (Vec (1 / 4) 4 4) (box_geo example_globals)
     = [Vec (1 / 4) 4 4, Vec (33 / 4) 4 4]"
  by (simp add: positions_in_halo_def pos_shifted_at_def example_globals_def geo_simps)

lemma example_kernel:
  "kernel example_globals example_coupling (example_particle, []) =
     Inr (example_particle\<lparr>p_force := Vec (1 / 2) (- 3 / 10) (- 2 / 5)\<rparr>,
          [(Vec (1 / 4) 4 4, Vec (- 1 / 20000) (3 / 100000) (1 / 25000)),
           (Vec (33 / 4) 4 4, Vec (- 1 / 20000) (3 / 100000) (1 / 25000))])"
proof -
  have pos: "p_pos example_particle = Vec (1 / 4) 4 4"
    by (simp add: example_particle_def)
  have halo: "in_local_halo example_globals (Vec (1 / 4) 4 4)"
    by (simp add: example_globals_def geo_simps)
  have dom: "in_local_domain example_globals (Vec (1 / 4) 4 4) 0"
    "\<not> in_local_domain example_globals (Vec (33 / 4) 4 4) 0"
    by (simp_all add: example_globals_def geo_simps)
  have noise: "get_noise_term example_globals example_coupling (p_id example_particle) = Inr (Vec 0 0 0)"
    by (simp add: get_noise_term_def example_coupling_def zero_Vector3d_def)
  have drag: "lb_drag_force example_globals example_particle (Vec (1 / 4) 4 4)
                (lb_particle_coupling_drift_vel_offset example_globals example_particle)
              = Vec (1 / 2) (- 3 / 10) (- 2 / 5)"
    by (simp add: lb_drag_force_def lb_particle_coupling_drift_vel_offset_def
        lb_lbcoupling_get_gamma_def example_globals_def example_particle_def zero_Vector3d_def)
  have F: "calc_coupling_force example_globals example_coupling example_particle
             [Vec (1 / 4) 4 4, Vec (33 / 4) 4 4] = Inr (Vec (1 / 2) (- 3 / 10) (- 2 / 5))"
    by (simp add: halo noise drag)
  have nv: "\<not> p_is_virtual example_particle" "\<not> ENGINE example_globals"
    by (simp_all add: example_particle_def example_globals_def)
  have ts: "m_time_step example_coupling = 1 / 100" "get_lattice_speed example_globals = 100"
    "p_force example_particle = Vec 0 0 0"
    by (simp_all add: example_coupling_def example_globals_def example_particle_def)
  show ?thesis
    by (simp add: kernel_def pos example_positions F nv dom add_md_force_def
        lb_lbinterpolation_add_force_density_def ts del: calc_coupling_force.simps)
qed

theorem kernel_deposits_witness:
  "\<not> (p_is_virtual example_particle \<and> \<not> m_couple_virtual example_coupling)
   \<and> (\<exists>coupling_force.
         calc_coupling_force example_globals example_coupling example_particle
           (positions_in_halo example_globals (p_pos example_particle) (box_geo example_globals))
           = Inr coupling_force
       \<and> [(Vec (1 / 4) 4 4, Vec (- 1 / 20000) (3 / 100000) (1 / 25000)),
           (Vec (33 / 4) 4 4, Vec (- 1 / 20000) (3 / 100000) (1 / 25000))]
           = [] @ md_force_deposits example_globals coupling_force (m_time_step example_coupling)
                    (positions_in_halo example_globals (p_pos example_particle) (box_geo example_globals))
                @ (if ENGINE example_globals
                   then add_swimmer_force example_globals example_particle (m_time_step example_coupling) []
                   else []))"
proof -
  have nv: "\<not> (p_is_virtual example_particle \<and> \<not> m_couple_virtual example_coupling)"
    by (simp add: example_particle_def)
  from kernel_deposits [OF nv example_kernel] nv show ?thesis
    by blast
qed

text \<open>
  C2 as stated fails for this particle: the kernel deposits the coupling force at
  \<open>(33/4, 4, 4)\<close>, an image in the halo of the local domain \<open>[0, 8)\<^sup>3\<close> but not in the
  domain.
\<close>

theorem kernel_deposits_counterexample:
  "snd (projr (kernel example_globals example_coupling (example_particle, [])))
     = [(Vec (1 / 4) 4 4, Vec (- 1 / 20000) (3 / 100000) (1 / 25000)),
        (Vec (33 / 4) 4 4, Vec (- 1 / 20000) (3 / 100000) (1 / 25000))]
   \<and> \<not> in_local_domain example_globals (Vec (33 / 4) 4 4) 0"
  by (simp add: example_kernel) (simp add: example_globals_def geo_simps)

section \<open>Coupling bookkeeping\<close>

text \<open>
  C3 (as amended). For a particle \<open>p\<close> whose id has a local particle \<open>q\<close> on this rank,
  \<^verbatim>\<open>is_ghost_for_local_particle(p)\<close> is true exactly when \<open>q\<close> is not a ghost, that is
  when this rank holds the identity of \<open>p\<close> as a real particle.
\<close>

theorem is_ghost_for_local_particle_real:
  "get_local_particle g (p_id p) = Some q
   \<Longrightarrow> is_ghost_for_local_particle g p = Inr (\<not> p_is_ghost q)"
  by (simp add: is_ghost_for_local_particle_def)

theorem is_ghost_for_local_particle_real_witness:
  "get_local_particle example_globals_real (p_id example_ghost) = Some example_particle
   \<and> is_ghost_for_local_particle example_globals_real example_ghost = Inr True"
proof -
  have h: "get_local_particle example_globals_real (p_id example_ghost) = Some example_particle"
    by (simp add: example_globals_real_def example_ghost_def example_particle_def)
  have "\<not> p_is_ghost example_particle"
    by (simp add: example_particle_def)
  with h is_ghost_for_local_particle_real [OF h] show ?thesis by simp
qed

text \<open>
  C3 as stated fails where the local copy is a ghost: the rank sees particle 0 only as a
  ghost, and the function returns false.
\<close>

theorem is_ghost_for_local_particle_counterexample:
  "get_local_particle example_ghost_only (p_id example_ghost) = Some example_ghost
   \<and> p_is_ghost example_ghost
   \<and> is_ghost_for_local_particle example_ghost_only example_ghost = Inr False"
  by (simp add: is_ghost_for_local_particle_def example_ghost_only_def example_ghost_def
      example_particle_def)

end
